theory Spec2Isabelle
  imports Main
begin

section \<open>Values, specification nodes and requests\<close>

text \<open>
  A shallow embedding of \<^verbatim>\<open>openapi_core/validation/request/validators.py\<close>
  (class \<^verbatim>\<open>RequestValidator\<close>). Python values that flow through the pipeline
  (raw parameter values, payloads, defaults, resolved values) are values of \<open>val\<close>;
  \<open>VNone\<close> is Python's \<^verbatim>\<open>None\<close>.
\<close>

datatype val =
    VNone
  | VBool bool
  | VInt int
  | VStr string
  | VList "val list"
  | VDict "(string \<times> val) list"

text \<open>Python truthiness, as \<^verbatim>\<open>not request.body\<close> reads it.\<close>

fun truthy :: "val \<Rightarrow> bool" where
  "truthy VNone = False"
| "truthy (VBool b) = b"
| "truthy (VInt i) = (i \<noteq> 0)"
| "truthy (VStr s) = (s \<noteq> [])"
| "truthy (VList xs) = (xs \<noteq> [])"
| "truthy (VDict kvs) = (kvs \<noteq> [])"

text \<open>
  \<^verbatim>\<open>node.getkey(key, default)\<close> on an optional key of a specification node: the
  key's value when it is declared, the default otherwise.
\<close>

definition getkey :: "'a option \<Rightarrow> 'a \<Rightarrow> 'a" where
  "getkey field dflt = (case field of None \<Rightarrow> dflt | Some v \<Rightarrow> v)"

text \<open>
  Modelled from the spec: the content of a per-location value store of a request (its
  class is not part of this module), with a presence test, a single lookup and a
  multi-value lookup for repeated keys. It is an association list in arrival order:
  \<open>map_of\<close> is the single lookup (\<^verbatim>\<open>location[name]\<close>, the first occurrence), \<open>getall\<close> and
  \<open>getlist\<close> are \<^verbatim>\<open>location.getall(name)\<close> and \<^verbatim>\<open>location.getlist(name)\<close> of a store that has
  the method. The same type holds the content of a plain dictionary (keys distinct), with
  \<open>setitem\<close> as \<^verbatim>\<open>d[k] = v\<close>.
\<close>

type_synonym store = "(string \<times> val) list"

definition getall :: "store \<Rightarrow> string \<Rightarrow> val list" where
  "getall location name = map snd (filter (\<lambda>kv. fst kv = name) location)"

definition getlist :: "store \<Rightarrow> string \<Rightarrow> val list" where
  "getlist location name = map snd (filter (\<lambda>kv. fst kv = name) location)"

text \<open>
  The class of a store object, which \<^verbatim>\<open>_get_parameter_value\<close> dispatches on: a multi-dict
  with a \<^verbatim>\<open>getall\<close> method, a multi-dict with \<^verbatim>\<open>getlist\<close> only, or a plain dictionary,
  which has neither. The classes of a request's stores are the caller's choice (they are
  not fixed in this module), so a request carries one class per location.
\<close>

datatype store_class = WithGetall | WithGetlist | PlainDict

record store_classes =
  class_path :: store_class
  class_query :: store_class
  class_header :: store_class
  class_cookie :: store_class

fun setitem :: "store \<Rightarrow> string \<Rightarrow> val \<Rightarrow> store" where
  "setitem [] k v = [(k, v)]"
| "setitem ((k', v') # d) k v = (if k' = k then (k, v) # d else (k', v') # setitem d k v)"

datatype location = LPath | LQuery | LHeader | LCookie

text \<open>\<^verbatim>\<open>RequestParameters\<close>: one store per location, each empty by default.\<close>

record request_parameters =
  rp_path :: store
  rp_query :: store
  rp_header :: store
  rp_cookie :: store

definition RequestParameters :: request_parameters where
  "RequestParameters = \<lparr>rp_path = [], rp_query = [], rp_header = [], rp_cookie = []\<rparr>"

text \<open>\<^verbatim>\<open>request.parameters[param_location]\<close>.\<close>

fun getitem_location :: "request_parameters \<Rightarrow> location \<Rightarrow> store" where
  "getitem_location ps LPath = rp_path ps"
| "getitem_location ps LQuery = rp_query ps"
| "getitem_location ps LHeader = rp_header ps"
| "getitem_location ps LCookie = rp_cookie ps"

text \<open>
  \<^verbatim>\<open>locations.setdefault(param_location, {}); locations[param_location][param_name] = value\<close>,
  read through the final \<^verbatim>\<open>RequestParameters(**locations)\<close>.
\<close>

fun set_location :: "request_parameters \<Rightarrow> location \<Rightarrow> string \<Rightarrow> val \<Rightarrow> request_parameters" where
  "set_location ps LPath k v = ps\<lparr>rp_path := setitem (rp_path ps) k v\<rparr>"
| "set_location ps LQuery k v = ps\<lparr>rp_query := setitem (rp_query ps) k v\<rparr>"
| "set_location ps LHeader k v = ps\<lparr>rp_header := setitem (rp_header ps) k v\<rparr>"
| "set_location ps LCookie k v = ps\<lparr>rp_cookie := setitem (rp_cookie ps) k v\<rparr>"

fun class_of :: "store_classes \<Rightarrow> location \<Rightarrow> store_class" where
  "class_of cs LPath = class_path cs"
| "class_of cs LQuery = class_query cs"
| "class_of cs LHeader = class_header cs"
| "class_of cs LCookie = class_cookie cs"

record request =
  req_method :: string
  req_path :: string
  req_mimetype :: string
  req_parameters :: request_parameters
  req_store_classes :: store_classes
  req_body :: val

text \<open>
  Specification nodes. An optional key of a node is an \<open>option\<close> field (\<^verbatim>\<open>'schema' in param\<close>
  is \<open>param_schema param \<noteq> None\<close>); a path \<^verbatim>\<open>node / 'schema'\<close> is the same field, \<open>None\<close>
  when the path does not resolve. \<open>schema_spec\<close> and \<open>mt_spec\<close> hold what the casting and
  unmarshalling engines read.
\<close>

record schema =
  schema_default :: "val option"
  schema_spec :: val

record media_type =
  mt_schema :: "schema option"
  mt_spec :: val

text \<open>
  Modelled from the spec: \<^verbatim>\<open>get_aslist\<close> and \<^verbatim>\<open>get_explode\<close>
  (\<^verbatim>\<open>openapi_core.schema.parameters\<close>) are missing; the declaration carries the two
  style flags they compute, \<open>param_aslist\<close> and \<open>param_explode\<close>. The other fields are the
  keys \<^verbatim>\<open>name\<close>, \<^verbatim>\<open>in\<close>, \<^verbatim>\<open>required\<close>, \<^verbatim>\<open>deprecated\<close>, \<^verbatim>\<open>schema\<close> and \<^verbatim>\<open>content\<close>; the
  content mapping keeps its iteration order.
\<close>

record param =
  param_name :: string
  param_in :: location
  param_required :: "bool option"
  param_deprecated :: "bool option"
  param_aslist :: bool
  param_explode :: bool
  param_schema :: "schema option"
  param_content :: "(string \<times> media_type) list option"

record request_body =
  rb_required :: "bool option"
  rb_content :: "(string \<times> media_type) list"

text \<open>A security requirement alternative: scheme name to required scopes.\<close>

type_synonym security_requirement = "(string \<times> string list) list"

record operation =
  op_parameters :: "param list option"
  op_requestBody :: "request_body option"
  op_security :: "security_requirement list option"

record path_item =
  pi_parameters :: "param list option"

record path_result =
  variables :: store

section \<open>Exceptions, effects and collaborators\<close>

datatype exn =
    PathError string
  | SecurityError string
  | InvalidSecurity
  | MissingParameter string
  | MissingRequiredParameter string
  | MissingRequestBody request
  | MissingRequiredRequestBody request
  | MediaTypeFinderError string
  | DeserializeError string
  | CastError string
  | ValidateError string
  | UnmarshalError string
  | StopIteration
  | AttributeError

text \<open>
  What a call does besides returning: a security provider is invoked for a scheme, or a
  deprecation warning is emitted for a parameter. Functions with such effects return the
  events in order, next to their value or exception.
\<close>

datatype event = ProviderCalled string | DeprecationWarning string

datatype unmarshal_failure = Invalid string | Unmarshallable string

text \<open>What \<^verbatim>\<open>_cast\<close> is given: a schema path (parameters) or a media type (body).\<close>

datatype cast_target = SchemaPath "schema option" | MediaType media_type

text \<open>
  The validator's collaborators, all outside this module, as parameters: the
  specification's own \<^verbatim>\<open>security\<close> key and its \<^verbatim>\<open>components#securitySchemes\<close> registry,
  the path finder, the provider a scheme creates, the deserializers, the caster, the
  unmarshaller and the media type finder. Each one returns a value (\<open>Inr\<close>) or fails
  (\<open>Inl\<close>) with the one exception class of its stage, built by the wrappers below. The
  last one, \<open>header_converter\<close>, is what the class \<^verbatim>\<open>RequestParameters\<close> does to the header
  mapping it is constructed with.
\<close>

record env =
  spec_security :: "security_requirement list option"
  security_schemes :: "(string \<times> val) list"
  path_finder :: "request \<Rightarrow> string + path_item \<times> operation \<times> path_result"
  security_provider :: "val \<Rightarrow> request \<Rightarrow> string + val"
  parameter_deserializer :: "param \<Rightarrow> val \<Rightarrow> string + val"
  media_type_deserializer :: "string \<Rightarrow> val \<Rightarrow> string + val"
  schema_caster :: "cast_target \<Rightarrow> val \<Rightarrow> string + val"
  schema_unmarshaller :: "schema option \<Rightarrow> val \<Rightarrow> unmarshal_failure + val"
  media_type_finder :: "(string \<times> media_type) list \<Rightarrow> request \<Rightarrow> string + media_type \<times> string"
  header_converter :: "store \<Rightarrow> store"

definition find_path :: "env \<Rightarrow> request \<Rightarrow> exn + path_item \<times> operation \<times> path_result" where
  "find_path env request =
     (case path_finder env request of Inl m \<Rightarrow> Inl (PathError m) | Inr r \<Rightarrow> Inr r)"

definition get_media_type ::
  "env \<Rightarrow> (string \<times> media_type) list \<Rightarrow> request \<Rightarrow> exn + media_type \<times> string" where
  "get_media_type env content request =
     (case media_type_finder env content request of
        Inl m \<Rightarrow> Inl (MediaTypeFinderError m)
      | Inr r \<Rightarrow> Inr r)"

definition deserialise_data :: "env \<Rightarrow> string \<Rightarrow> val \<Rightarrow> exn + val" where
  "deserialise_data env mimetype v =
     (case media_type_deserializer env mimetype v of
        Inl m \<Rightarrow> Inl (DeserializeError m)
      | Inr d \<Rightarrow> Inr d)"

definition cast :: "env \<Rightarrow> cast_target \<Rightarrow> val \<Rightarrow> exn + val" where
  "cast env target v =
     (case schema_caster env target v of Inl m \<Rightarrow> Inl (CastError m) | Inr c \<Rightarrow> Inr c)"

definition unmarshal :: "env \<Rightarrow> schema option \<Rightarrow> val \<Rightarrow> exn + val" where
  "unmarshal env schema v =
     (case schema_unmarshaller env schema v of
        Inl (Invalid m) \<Rightarrow> Inl (ValidateError m)
      | Inl (Unmarshallable m) \<Rightarrow> Inl (UnmarshalError m)
      | Inr u \<Rightarrow> Inr u)"

text \<open>Sequencing of two steps, the first of which may raise.\<close>

definition and_then :: "exn + 'a \<Rightarrow> ('a \<Rightarrow> exn + 'b) \<Rightarrow> exn + 'b" where
  "and_then r f = (case r of Inl e \<Rightarrow> Inl e | Inr v \<Rightarrow> f v)"

section \<open>Security resolution\<close>

text \<open>\<^verbatim>\<open>_get_security_value\<close>: a scheme the registry does not hold returns \<^verbatim>\<open>None\<close>.\<close>

definition get_security_value :: "env \<Rightarrow> string \<Rightarrow> request \<Rightarrow> event list \<times> (exn + val)" where
  "get_security_value env scheme_name request =
     (case map_of (security_schemes env) scheme_name of
        None \<Rightarrow> ([], Inr VNone)
      | Some scheme \<Rightarrow>
          ([ProviderCalled scheme_name],
           case security_provider env scheme request of
             Inl m \<Rightarrow> Inl (SecurityError m)
           | Inr v \<Rightarrow> Inr v))"

text \<open>
  The dictionary comprehension of \<^verbatim>\<open>_get_security\<close> over the keys of one alternative:
  the first scheme that raises ends it.
\<close>

fun resolve_schemes :: "env \<Rightarrow> request \<Rightarrow> string list \<Rightarrow> event list \<times> (exn + store)" where
  "resolve_schemes env request [] = ([], Inr [])"
| "resolve_schemes env request (scheme_name # names) =
     (case get_security_value env scheme_name request of
        (ev, Inl e) \<Rightarrow> (ev, Inl e)
      | (ev, Inr v) \<Rightarrow>
          (case resolve_schemes env request names of
             (ev', Inl e) \<Rightarrow> (ev @ ev', Inl e)
           | (ev', Inr m) \<Rightarrow> (ev @ ev', Inr ((scheme_name, v) # m))))"

text \<open>The loop \<^verbatim>\<open>for security_requirement in security\<close>, ending in \<^verbatim>\<open>raise InvalidSecurity()\<close>.\<close>

fun try_alternatives ::
  "env \<Rightarrow> request \<Rightarrow> security_requirement list \<Rightarrow> event list \<times> (exn + store)" where
  "try_alternatives env request [] = ([], Inl InvalidSecurity)"
| "try_alternatives env request (security_requirement # rest) =
     (case resolve_schemes env request (map fst security_requirement) of
        (ev, Inr m) \<Rightarrow> (ev, Inr m)
      | (ev, Inl (SecurityError msg)) \<Rightarrow>
          (case try_alternatives env request rest of (ev', r) \<Rightarrow> (ev @ ev', r))
      | (ev, Inl e) \<Rightarrow> (ev, Inl e))"

text \<open>
  Modelled from the spec: the truth value of a specification path, whose class is outside
  this module. It is falsy exactly when the sequence it holds is empty ("if the effective
  list is empty, no security is required"). With it, \<^verbatim>\<open>_get_security\<close>.
\<close>

definition get_security :: "env \<Rightarrow> request \<Rightarrow> operation \<Rightarrow> event list \<times> (exn + store)" where
  "get_security env request operation =
     (let security = (case spec_security env of None \<Rightarrow> None | Some s \<Rightarrow> Some s);
          security = (case op_security operation of None \<Rightarrow> security | Some s \<Rightarrow> Some s)
      in case security of
           None \<Rightarrow> ([], Inr [])
         | Some alternatives \<Rightarrow>
             if alternatives = [] then ([], Inr [])
             else try_alternatives env request alternatives)"

section \<open>The parameter pipeline\<close>

text \<open>
  \<^verbatim>\<open>_get_parameter_value\<close>. With \<open>aslist\<close> and \<open>explode\<close> it calls \<^verbatim>\<open>getall\<close> on a store that
  has it and \<^verbatim>\<open>getlist\<close> on any other; a plain dictionary has no \<^verbatim>\<open>getlist\<close>, and the call
  raises \<^verbatim>\<open>AttributeError\<close>.
\<close>

definition get_parameter_value :: "param \<Rightarrow> request \<Rightarrow> exn + val" where
  "get_parameter_value param request =
     (let param_location = param_in param;
          location = getitem_location (req_parameters request) param_location
      in case map_of location (param_name param) of
           None \<Rightarrow>
             if getkey (param_required param) False
             then Inl (MissingRequiredParameter (param_name param))
             else Inl (MissingParameter (param_name param))
         | Some single \<Rightarrow>
             if param_aslist param \<and> param_explode param
             then (case class_of (req_store_classes request) param_location of
                     WithGetall \<Rightarrow> Inr (VList (getall location (param_name param)))
                   | WithGetlist \<Rightarrow> Inr (VList (getlist location (param_name param)))
                   | PlainDict \<Rightarrow> Inl AttributeError)
             else Inr single)"

text \<open>\<^verbatim>\<open>_deserialise_parameter\<close>.\<close>

definition deserialise_parameter :: "env \<Rightarrow> param \<Rightarrow> val \<Rightarrow> exn + val" where
  "deserialise_parameter env param v =
     (case parameter_deserializer env param v of
        Inl m \<Rightarrow> Inl (DeserializeError m)
      | Inr d \<Rightarrow> Inr d)"

text \<open>
  \<^verbatim>\<open>_get_parameter\<close>. \<^verbatim>\<open>next(content.items())\<close> on a content mapping without entries
  raises \<^verbatim>\<open>StopIteration\<close>.
\<close>

definition get_parameter :: "env \<Rightarrow> param \<Rightarrow> request \<Rightarrow> event list \<times> (exn + val)" where
  "get_parameter env param request =
     (if getkey (param_deprecated param) False then [DeprecationWarning (param_name param)] else [],
      case get_parameter_value param request of
        Inl (MissingParameter n) \<Rightarrow>
          (case param_schema param of
             None \<Rightarrow> Inl (MissingParameter n)
           | Some schema \<Rightarrow>
               (case schema_default schema of
                  None \<Rightarrow> Inl (MissingParameter n)
                | Some casted \<Rightarrow> unmarshal env (Some schema) casted))
      | Inl e \<Rightarrow> Inl e
      | Inr raw_value \<Rightarrow>
          (case param_content param of
             None \<Rightarrow>
               and_then (deserialise_parameter env param raw_value) (\<lambda>deserialised.
               and_then (cast env (SchemaPath (param_schema param)) deserialised) (\<lambda>casted.
               unmarshal env (param_schema param) casted))
           | Some [] \<Rightarrow> Inl StopIteration
           | Some ((mimetype, media_type) # further) \<Rightarrow>
               and_then (deserialise_data env mimetype raw_value) (\<lambda>deserialised.
               and_then (cast env (SchemaPath (mt_schema media_type)) deserialised) (\<lambda>casted.
               unmarshal env (mt_schema media_type) casted))))"

text \<open>The exception classes \<^verbatim>\<open>_get_parameters\<close> appends to its error list.\<close>

fun collected :: "exn \<Rightarrow> bool" where
  "collected (MissingRequiredParameter n) = True"
| "collected (DeserializeError m) = True"
| "collected (CastError m) = True"
| "collected (ValidateError m) = True"
| "collected (UnmarshalError m) = True"
| "collected e = False"

text \<open>
  The loop of \<^verbatim>\<open>_get_parameters\<close> over the declarations, with its three variables
  \<^verbatim>\<open>errors\<close>, \<^verbatim>\<open>seen\<close> and \<^verbatim>\<open>locations\<close>. An exception of another class leaves the loop.
\<close>

fun get_parameters_loop ::
  "env \<Rightarrow> request \<Rightarrow> param list \<Rightarrow> exn list \<Rightarrow> (string \<times> location) set \<Rightarrow> request_parameters
     \<Rightarrow> event list \<times> (exn + request_parameters \<times> exn list)" where
  "get_parameters_loop env request [] errors seen locations = ([], Inr (locations, errors))"
| "get_parameters_loop env request (param # params) errors seen locations =
     (if (param_name param, param_in param) \<in> seen
      then get_parameters_loop env request params errors seen locations
      else
        (case get_parameter env param request of
           (ev, Inl (MissingParameter n)) \<Rightarrow>
             (case get_parameters_loop env request params errors
                     (insert (param_name param, param_in param) seen) locations of
                (ev', r) \<Rightarrow> (ev @ ev', r))
         | (ev, Inl exc) \<Rightarrow>
             if collected exc
             then (case get_parameters_loop env request params (errors @ [exc])
                          (insert (param_name param, param_in param) seen) locations of
                     (ev', r) \<Rightarrow> (ev @ ev', r))
             else (ev, Inl exc)
         | (ev, Inr v) \<Rightarrow>
             (case get_parameters_loop env request params errors
                     (insert (param_name param, param_in param) seen)
                     (set_location locations (param_in param) (param_name param) v) of
                (ev', r) \<Rightarrow> (ev @ ev', r))))"

text \<open>
  \<^verbatim>\<open>RequestParameters(**locations)\<close>: the stores collected, a location without one being
  empty; the class converts the header mapping it is given.
\<close>

definition RequestParameters_from :: "env \<Rightarrow> request_parameters \<Rightarrow> request_parameters" where
  "RequestParameters_from env locations =
     locations\<lparr>rp_header :=
       (if rp_header locations = [] then [] else header_converter env (rp_header locations))\<rparr>"

text \<open>\<^verbatim>\<open>_get_parameters\<close>: the loop, then \<^verbatim>\<open>return RequestParameters(**locations), errors\<close>.\<close>

definition get_parameters ::
  "env \<Rightarrow> request \<Rightarrow> param list \<Rightarrow> event list \<times> (exn + request_parameters \<times> exn list)" where
  "get_parameters env request params =
     (case get_parameters_loop env request params [] {} RequestParameters of
        (ev, Inl e) \<Rightarrow> (ev, Inl e)
      | (ev, Inr (locations, errors)) \<Rightarrow> (ev, Inr (RequestParameters_from env locations, errors)))"

section \<open>The body pipeline\<close>

text \<open>\<^verbatim>\<open>_get_body_value\<close>.\<close>

definition get_body_value :: "request_body \<Rightarrow> request \<Rightarrow> exn + val" where
  "get_body_value request_body request =
     (if \<not> truthy (req_body request) then
        (if getkey (rb_required request_body) False
         then Inl (MissingRequiredRequestBody request)
         else Inl (MissingRequestBody request))
      else Inr (req_body request))"

text \<open>\<^verbatim>\<open>_get_body\<close>: the body (\<^verbatim>\<open>None\<close> when there is none) and the body errors.\<close>

definition get_body :: "env \<Rightarrow> request \<Rightarrow> operation \<Rightarrow> exn + val \<times> exn list" where
  "get_body env request operation =
     (case op_requestBody operation of
        None \<Rightarrow> Inr (VNone, [])
      | Some request_body \<Rightarrow>
          (case get_body_value request_body request of
             Inl (MissingRequiredRequestBody r) \<Rightarrow> Inr (VNone, [MissingRequiredRequestBody r])
           | Inl (MissingRequestBody r) \<Rightarrow> Inr (VNone, [])
           | Inl e \<Rightarrow> Inl e
           | Inr raw_body \<Rightarrow>
               (case get_media_type env (rb_content request_body) request of
                  Inl (MediaTypeFinderError m) \<Rightarrow> Inr (VNone, [MediaTypeFinderError m])
                | Inl e \<Rightarrow> Inl e
                | Inr (media_type, mimetype) \<Rightarrow>
                    (case deserialise_data env mimetype raw_body of
                       Inl (DeserializeError m) \<Rightarrow> Inr (VNone, [DeserializeError m])
                     | Inl e \<Rightarrow> Inl e
                     | Inr deserialised \<Rightarrow>
                         (case cast env (MediaType media_type) deserialised of
                            Inl (CastError m) \<Rightarrow> Inr (VNone, [CastError m])
                          | Inl e \<Rightarrow> Inl e
                          | Inr casted \<Rightarrow>
                              (case mt_schema media_type of
                                 None \<Rightarrow> Inr (casted, [])
                               | Some schema \<Rightarrow>
                                   (case unmarshal env (Some schema) casted of
                                      Inl (ValidateError m) \<Rightarrow> Inr (VNone, [ValidateError m])
                                    | Inl (UnmarshalError m) \<Rightarrow> Inr (VNone, [UnmarshalError m])
                                    | Inl e \<Rightarrow> Inl e
                                    | Inr body \<Rightarrow> Inr (body, []))))))))"

section \<open>The validator\<close>

text \<open>
  Modelled from the spec: \<^verbatim>\<open>RequestValidationResult\<close>, whose class is outside this
  module. A field the constructor is not given is absent (\<^verbatim>\<open>None\<close>) or empty.
\<close>

record request_validation_result =
  res_errors :: "exn list"
  res_body :: val
  res_parameters :: request_parameters
  res_security :: "store option"

definition RequestValidationResult :: "exn list \<Rightarrow> request_validation_result" where
  "RequestValidationResult errors =
     \<lparr>res_errors = errors, res_body = VNone, res_parameters = RequestParameters,
      res_security = None\<rparr>"

text \<open>
  \<^verbatim>\<open>validate\<close>: the events in order, the request as the call leaves it, and the result or
  the exception that escapes. An empty path store of the request is replaced by the path
  variables of the path result, which are a plain dictionary.
\<close>

definition validate ::
  "env \<Rightarrow> request \<Rightarrow> event list \<times> request \<times> (exn + request_validation_result)" where
  "validate env request =
     (case find_path env request of
        Inl (PathError m) \<Rightarrow> ([], request, Inr (RequestValidationResult [PathError m]))
      | Inl e \<Rightarrow> ([], request, Inl e)
      | Inr (path, operation, path_result) \<Rightarrow>
          (case get_security env request operation of
             (ev, Inl InvalidSecurity) \<Rightarrow>
               (ev, request, Inr (RequestValidationResult [InvalidSecurity]))
           | (ev, Inl e) \<Rightarrow> (ev, request, Inl e)
           | (ev, Inr security) \<Rightarrow>
               (let request' = request\<lparr>req_parameters := (req_parameters request)
                      \<lparr>rp_path := (if rp_path (req_parameters request) \<noteq> []
                                   then rp_path (req_parameters request)
                                   else variables path_result)\<rparr>,
                      req_store_classes :=
                        (if rp_path (req_parameters request) \<noteq> []
                         then req_store_classes request
                         else (req_store_classes request)\<lparr>class_path := PlainDict\<rparr>)\<rparr>;
                    operation_params = getkey (op_parameters operation) [];
                    operation_params_iter = (if operation_params \<noteq> [] then operation_params else []);
                    path_params = getkey (pi_parameters path) [];
                    params_params_iter = (if path_params \<noteq> [] then path_params else [])
                in case get_parameters env request' (operation_params_iter @ params_params_iter) of
                     (ev', Inl e) \<Rightarrow> (ev @ ev', request', Inl e)
                   | (ev', Inr (params, params_errors)) \<Rightarrow>
                       (case get_body env request' operation of
                          Inl e \<Rightarrow> (ev @ ev', request', Inl e)
                        | Inr (body, body_errors) \<Rightarrow>
                            (ev @ ev', request',
                             Inr \<lparr>res_errors = params_errors @ body_errors, res_body = body,
                                  res_parameters = params, res_security = Some security\<rparr>)))))"


section \<open>The pipeline as the specification words it\<close>

text \<open>
  The security resolver in the specification's words, to be compared with \<open>get_security\<close>:
  a scheme raises a security error or resolves to a value; an alternative is satisfied
  when none of its schemes raises; the effective alternatives are the operation's when it
  declares the key, the specification-wide ones otherwise; the alternatives tried are those
  before the first satisfied one, and that one.
\<close>

definition raises_security_error :: "env \<Rightarrow> request \<Rightarrow> string \<Rightarrow> bool" where
  "raises_security_error env request scheme_name =
     (case snd (get_security_value env scheme_name request) of
        Inl (SecurityError msg) \<Rightarrow> True
      | _ \<Rightarrow> False)"

definition resolved_value :: "env \<Rightarrow> request \<Rightarrow> string \<Rightarrow> val" where
  "resolved_value env request scheme_name =
     (case snd (get_security_value env scheme_name request) of Inr v \<Rightarrow> v | Inl e \<Rightarrow> VNone)"

definition satisfied :: "env \<Rightarrow> request \<Rightarrow> security_requirement \<Rightarrow> bool" where
  "satisfied env request alternative =
     list_all (\<lambda>n. \<not> raises_security_error env request n) (map fst alternative)"

definition effective_security :: "env \<Rightarrow> operation \<Rightarrow> security_requirement list" where
  "effective_security env operation =
     (case op_security operation of
        Some alternatives \<Rightarrow> alternatives
      | None \<Rightarrow> (case spec_security env of Some alternatives \<Rightarrow> alternatives | None \<Rightarrow> []))"

definition attempt_events :: "env \<Rightarrow> request \<Rightarrow> security_requirement \<Rightarrow> event list" where
  "attempt_events env request alternative =
     fst (resolve_schemes env request (map fst alternative))"

definition tried :: "env \<Rightarrow> request \<Rightarrow> security_requirement list \<Rightarrow> security_requirement list" where
  "tried env request alternatives =
     takeWhile (\<lambda>a. \<not> satisfied env request a) alternatives @
     take 1 (dropWhile (\<lambda>a. \<not> satisfied env request a) alternatives)"





text \<open>
  \<open>with_events ev r\<close>: the outcome \<open>r\<close> of the rest of a loop, after the events \<open>ev\<close>.
\<close>

definition with_events :: "event list \<Rightarrow> event list \<times> 'a \<Rightarrow> event list \<times> 'a" where
  "with_events ev r = (ev @ fst r, snd r)"

text \<open>
  The default a declaration's schema declares, if it has a schema and that has one.
\<close>

definition declared_default :: "param \<Rightarrow> val option" where
  "declared_default param =
     (case param_schema param of None \<Rightarrow> None | Some schema \<Rightarrow> schema_default schema)"

section \<open>A worked specification and requests\<close>

text \<open>
  A small specification with two security alternatives (an API key, or HTTP
  authorization), one operation \<^verbatim>\<open>GET /pets\<close> with a deprecated optional \<^verbatim>\<open>limit\<close> (default
  \<^verbatim>\<open>20\<close>) and a required exploded list \<^verbatim>\<open>tags\<close>, and collaborators simple enough to
  evaluate: the deserializer for \<^verbatim>\<open>application/json\<close> is the only one, the unmarshaller
  rejects the value \<^verbatim>\<open>bad\<close>, the header converter changes nothing. The request's query
  and header stores are multi-dicts with \<^verbatim>\<open>getlist\<close>, its path and cookie stores plain
  dictionaries.
\<close>

definition example_schema :: schema where
  "example_schema = \<lparr>schema_default = Some (VStr ''20''), schema_spec = VStr ''integer''\<rparr>"

definition example_limit :: param where
  "example_limit = \<lparr>param_name = ''limit'', param_in = LQuery, param_required = None,
     param_deprecated = Some True, param_aslist = False, param_explode = True,
     param_schema = Some example_schema, param_content = None\<rparr>"

definition example_tags :: param where
  "example_tags = \<lparr>param_name = ''tags'', param_in = LQuery, param_required = Some True,
     param_deprecated = None, param_aslist = True, param_explode = True,
     param_schema = Some \<lparr>schema_default = None, schema_spec = VStr ''array''\<rparr>,
     param_content = None\<rparr>"

definition example_operation :: operation where
  "example_operation = \<lparr>op_parameters = Some [example_limit, example_tags],
     op_requestBody = None, op_security = None\<rparr>"

definition example_env :: env where
  "example_env = \<lparr>
     spec_security = Some [[(''api_key'', [])], [(''petstore_auth'', [''read''])]],
     security_schemes = [(''api_key'', VStr ''apiKey''), (''petstore_auth'', VStr ''http'')],
     path_finder = (\<lambda>r. if req_path r = ''/pets''
        then Inr (\<lparr>pi_parameters = None\<rparr>, example_operation, \<lparr>variables = []\<rparr>)
        else Inl ''path not found''),
     security_provider = (\<lambda>scheme r.
        if scheme = VStr ''apiKey''
        then (case map_of (rp_header (req_parameters r)) ''api_key'' of
                None \<Rightarrow> Inl ''missing api key'' | Some v \<Rightarrow> Inr v)
        else (case map_of (rp_header (req_parameters r)) ''Authorization'' of
                None \<Rightarrow> Inl ''missing authorization header'' | Some v \<Rightarrow> Inr v)),
     parameter_deserializer = (\<lambda>p v. Inr v),
     media_type_deserializer = (\<lambda>mimetype v.
        if mimetype = ''application/json'' then Inr v else Inl ''unsupported''),
     schema_caster = (\<lambda>t v. Inr v),
     schema_unmarshaller = (\<lambda>s v. if v = VStr ''bad'' then Inl (Invalid ''bad'') else Inr v),
     media_type_finder = (\<lambda>content r.
        case map_of content (req_mimetype r) of
          None \<Rightarrow> Inl ''media type not found''
        | Some mt \<Rightarrow> Inr (mt, req_mimetype r)),
     header_converter = (\<lambda>h. h)\<rparr>"

definition example_request :: request where
  "example_request = \<lparr>req_method = ''get'', req_path = ''/pets'',
     req_mimetype = ''application/json'',
     req_parameters = \<lparr>rp_path = [], rp_query = [(''tags'', VStr ''a''), (''tags'', VStr ''b'')],
        rp_header = [(''Authorization'', VStr ''Basic abc'')], rp_cookie = []\<rparr>,
     req_store_classes = \<lparr>class_path = PlainDict, class_query = WithGetlist,
        class_header = WithGetlist, class_cookie = PlainDict\<rparr>,
     req_body = VNone\<rparr>"

text \<open>
  Requests without credentials, with an API key, and with other query strings.
\<close>

definition anonymous_request :: request where
  "anonymous_request = example_request\<lparr>req_parameters :=
     (req_parameters example_request)\<lparr>rp_header := []\<rparr>\<rparr>"

definition keyed_request :: request where
  "keyed_request = example_request\<lparr>req_parameters :=
     (req_parameters example_request)\<lparr>rp_header := [(''api_key'', VStr ''k1'')]\<rparr>\<rparr>"

definition untagged_request :: request where
  "untagged_request = example_request\<lparr>req_parameters :=
     (req_parameters example_request)\<lparr>rp_query := []\<rparr>\<rparr>"

definition limited_request :: request where
  "limited_request = example_request\<lparr>req_parameters :=
     (req_parameters example_request)\<lparr>rp_query := [(''limit'', VStr ''20'')]\<rparr>\<rparr>"


definition filter_request :: request where
  "filter_request = example_request\<lparr>req_parameters :=
     (req_parameters example_request)\<lparr>rp_query := [(''filter'', VStr ''{}'')]\<rparr>\<rparr>"

text \<open>
  More declarations: an optional \<^verbatim>\<open>sort\<close> without default, a content parameter
  \<^verbatim>\<open>filter\<close> with two media types, \<^verbatim>\<open>tags\<close> with an empty content mapping, and a
  path item that declares \<^verbatim>\<open>tags\<close> again, optional and with a default.
\<close>

definition sort_param :: param where
  "sort_param = \<lparr>param_name = ''sort'', param_in = LQuery, param_required = None,
     param_deprecated = None, param_aslist = False, param_explode = False,
     param_schema = Some \<lparr>schema_default = None, schema_spec = VStr ''string''\<rparr>,
     param_content = None\<rparr>"

definition filter_param :: param where
  "filter_param = \<lparr>param_name = ''filter'', param_in = LQuery, param_required = None,
     param_deprecated = None, param_aslist = False, param_explode = False,
     param_schema = None,
     param_content = Some [(''text/plain'', \<lparr>mt_schema = None, mt_spec = VNone\<rparr>),
                           (''application/json'', \<lparr>mt_schema = None, mt_spec = VNone\<rparr>)]\<rparr>"


definition path_level_tags :: param where
  "path_level_tags = example_tags\<lparr>param_required := None,
     param_schema := Some \<lparr>schema_default = Some (VList []), schema_spec = VStr ''array''\<rparr>\<rparr>"

definition shadow_env :: env where
  "shadow_env = example_env\<lparr>path_finder := (\<lambda>r.
     Inr (\<lparr>pi_parameters = Some [path_level_tags]\<rparr>, example_operation, \<lparr>variables = []\<rparr>))\<rparr>"

text \<open>
  A caster that turns the string \<^verbatim>\<open>20\<close> into the number.
\<close>

definition casting_env :: env where
  "casting_env = example_env\<lparr>schema_caster :=
     (\<lambda>t v. if v = VStr ''20'' then Inr (VInt 20) else Inr v)\<rparr>"

text \<open>
  An operation whose only alternative names a scheme the registry does not hold, and one
  with a required JSON body; requests with an empty, an XML and a JSON payload.
\<close>

definition ghost_operation :: operation where
  "ghost_operation = example_operation\<lparr>op_security := Some [[(''ghost'', [])]]\<rparr>"

definition body_operation :: operation where
  "body_operation = example_operation\<lparr>op_requestBody := Some
     \<lparr>rb_required = Some True,
      rb_content = [(''application/json'', \<lparr>mt_schema = None, mt_spec = VNone\<rparr>)]\<rparr>\<rparr>"

definition empty_body_request :: request where
  "empty_body_request = example_request\<lparr>req_body := VStr []\<rparr>"

definition xml_body_request :: request where
  "xml_body_request = example_request\<lparr>req_mimetype := ''text/xml'', req_body := VStr ''<a/>''\<rparr>"

definition json_body_request :: request where
  "json_body_request = example_request\<lparr>req_body := VStr ''{}''\<rparr>"

text \<open>
  An operation \<^verbatim>\<open>GET /pets/{ids}\<close> without security, whose path parameter \<^verbatim>\<open>ids\<close> is an
  exploded list, found with the path variable \<^verbatim>\<open>ids = 1,2\<close>; and an exploded list
  \<^verbatim>\<open>flags\<close> in a cookie, with a request that sends it.
\<close>

definition ids_param :: param where
  "ids_param = \<lparr>param_name = ''ids'', param_in = LPath, param_required = Some True,
     param_deprecated = None, param_aslist = True, param_explode = True,
     param_schema = Some \<lparr>schema_default = None, schema_spec = VStr ''array''\<rparr>,
     param_content = None\<rparr>"

definition ids_operation :: operation where
  "ids_operation = \<lparr>op_parameters = Some [ids_param], op_requestBody = None,
     op_security = Some []\<rparr>"

definition ids_env :: env where
  "ids_env = example_env\<lparr>path_finder := (\<lambda>r.
     Inr (\<lparr>pi_parameters = None\<rparr>, ids_operation, \<lparr>variables = [(''ids'', VStr ''1,2'')]\<rparr>))\<rparr>"

definition flags_param :: param where
  "flags_param = \<lparr>param_name = ''flags'', param_in = LCookie, param_required = None,
     param_deprecated = None, param_aslist = True, param_explode = True,
     param_schema = Some \<lparr>schema_default = None, schema_spec = VStr ''array''\<rparr>,
     param_content = None\<rparr>"

definition flags_request :: request where
  "flags_request = example_request\<lparr>req_parameters :=
     (req_parameters example_request)\<lparr>rp_cookie := [(''flags'', VStr ''a'')]\<rparr>\<rparr>"

section \<open>Path resolution failure\<close>

text \<open>
  C1. When path/operation resolution fails, \<open>validate\<close> returns a result whose error list
  is exactly that path error; parameters, body and security are not computed: the result's
  parameters are empty, its body and security absent, no provider is invoked, no warning
  is emitted and the request is left as it was.
\<close>

theorem validate_path_error:
  "find_path env request = Inl e \<Longrightarrow>
   validate env request =
     ([], request,
      Inr \<lparr>res_errors = [e], res_body = VNone, res_parameters = RequestParameters,
           res_security = None\<rparr>)"
  by (auto simp: validate_def find_path_def RequestValidationResult_def split: sum.splits)

theorem validate_path_error_witness:
  "find_path example_env (example_request\<lparr>req_path := ''/nowhere''\<rparr>) = Inl (PathError ''path not found'') \<and>
   validate example_env (example_request\<lparr>req_path := ''/nowhere''\<rparr>) =
     ([], example_request\<lparr>req_path := ''/nowhere''\<rparr>,
      Inr \<lparr>res_errors = [PathError ''path not found''], res_body = VNone, res_parameters = RequestParameters,
           res_security = None\<rparr>)"
proof -
  have h: "find_path example_env (example_request\<lparr>req_path := ''/nowhere''\<rparr>) = Inl (PathError ''path not found'')"
    by (simp add: find_path_def example_env_def example_request_def)
  show ?thesis using h validate_path_error [OF h] by simp
qed

section \<open>Security resolution\<close>

subsection \<open>Alternatives in declared order\<close>

lemma get_security_value_cases:
  "(\<exists>ev v. get_security_value env n request = (ev, Inr v)) \<or>
   (\<exists>ev m. get_security_value env n request = (ev, Inl (SecurityError m)))"
  by (auto simp: get_security_value_def split: option.splits sum.splits)

lemma raises_iff:
  "raises_security_error env request n \<longleftrightarrow> (\<exists>ev m. get_security_value env n request = (ev, Inl (SecurityError m)))"
  using get_security_value_cases [of env n request]
  by (auto simp: raises_security_error_def)

lemma not_raises_value:
  "\<not> raises_security_error env request n \<Longrightarrow>
   \<exists>ev. get_security_value env n request = (ev, Inr (resolved_value env request n))"
  using get_security_value_cases [of env n request]
  by (auto simp: raises_security_error_def resolved_value_def)

lemma resolve_schemes_snd:
  "(list_all (\<lambda>n. \<not> raises_security_error env request n) names \<and>
    snd (resolve_schemes env request names) =
      Inr (map (\<lambda>n. (n, resolved_value env request n)) names)) \<or>
   (\<not> list_all (\<lambda>n. \<not> raises_security_error env request n) names \<and>
    (\<exists>m. snd (resolve_schemes env request names) = Inl (SecurityError m)))"
proof (induction names)
  case Nil
  then show ?case by simp
next
  case (Cons n names)
  show ?case
  proof (cases "raises_security_error env request n")
    case True
    then obtain ev m where "get_security_value env n request = (ev, Inl (SecurityError m))"
      by (auto simp: raises_iff)
    with True show ?thesis by simp
  next
    case False
    from not_raises_value [OF False] obtain ev where
      v: "get_security_value env n request = (ev, Inr (resolved_value env request n))" by blast
    obtain ev' r where r: "resolve_schemes env request names = (ev', r)"
      by (cases "resolve_schemes env request names")
    from Cons r consider
      (ok) "list_all (\<lambda>n. \<not> raises_security_error env request n) names"
           "r = Inr (map (\<lambda>n. (n, resolved_value env request n)) names)"
    | (ko) m where "\<not> list_all (\<lambda>n. \<not> raises_security_error env request n) names"
           "r = Inl (SecurityError m)"
      by auto
    then show ?thesis
    proof cases
      case ok
      with False v r show ?thesis by simp
    next
      case ko
      with False v r show ?thesis by simp
    qed
  qed
qed

lemma resolve_schemes_satisfied:
  "satisfied env request a \<Longrightarrow>
   snd (resolve_schemes env request (map fst a)) = Inr (map (\<lambda>n. (n, resolved_value env request n)) (map fst a))"
  using resolve_schemes_snd [of env request "map fst a"] by (auto simp: satisfied_def)

lemma resolve_schemes_unsatisfied:
  "\<not> satisfied env request a \<Longrightarrow>
   \<exists>m. snd (resolve_schemes env request (map fst a)) = Inl (SecurityError m)"
  using resolve_schemes_snd [of env request "map fst a"] by (auto simp: satisfied_def)

lemma try_alternatives_snd:
  "snd (try_alternatives env request alternatives) =
     (case find (satisfied env request) alternatives of
        Some a \<Rightarrow> Inr (map (\<lambda>n. (n, resolved_value env request n)) (map fst a))
      | None \<Rightarrow> Inl InvalidSecurity)"
proof (induction alternatives)
  case Nil
  then show ?case by simp
next
  case (Cons a rest)
  obtain ev r where r: "resolve_schemes env request (map fst a) = (ev, r)"
    by (cases "resolve_schemes env request (map fst a)")
  show ?case
  proof (cases "satisfied env request a")
    case True
    with resolve_schemes_satisfied [OF True] r show ?thesis by simp
  next
    case False
    from resolve_schemes_unsatisfied [OF False] r obtain m where "r = Inl (SecurityError m)" by auto
    with False r Cons show ?thesis by (auto split: prod.splits)
  qed
qed

lemma try_alternatives_fst:
  "fst (try_alternatives env request alternatives) =
     concat (map (attempt_events env request) (tried env request alternatives))"
proof (induction alternatives)
  case Nil
  then show ?case by (simp add: tried_def)
next
  case (Cons a rest)
  obtain ev r where r: "resolve_schemes env request (map fst a) = (ev, r)"
    by (cases "resolve_schemes env request (map fst a)")
  show ?case
  proof (cases "satisfied env request a")
    case True
    with resolve_schemes_satisfied [OF True] r show ?thesis by (simp add: tried_def attempt_events_def)
  next
    case False
    from resolve_schemes_unsatisfied [OF False] r obtain m where "r = Inl (SecurityError m)" by auto
    with False r Cons show ?thesis by (auto simp: tried_def attempt_events_def split: prod.splits)
  qed
qed

lemma get_security_effective:
  "effective_security env operation \<noteq> [] \<Longrightarrow>
   get_security env request operation = try_alternatives env request (effective_security env operation)"
  by (auto simp: get_security_def effective_security_def split: option.splits)

text \<open>
  C2. For a non-empty effective list of alternatives, security resolution returns the
  mapping of scheme name to resolved value of the first alternative, in declared order, in
  which no scheme raises a security error; the providers invoked are those of the
  alternatives up to and including that one, so no further alternative is tried. When
  every alternative has a scheme that raises a security error, resolution raises
  \<open>InvalidSecurity\<close> and \<open>validate\<close> returns a result with exactly that one error and no
  parameters, body or security.
\<close>

theorem get_security_first_satisfied:
  "effective_security env operation \<noteq> [] \<Longrightarrow>
   snd (get_security env request operation) =
     (case find (satisfied env request) (effective_security env operation) of
        Some a \<Rightarrow> Inr (map (\<lambda>n. (n, resolved_value env request n)) (map fst a))
      | None \<Rightarrow> Inl InvalidSecurity) \<and>
   fst (get_security env request operation) =
     concat (map (attempt_events env request) (tried env request (effective_security env operation))) \<and>
   (find (satisfied env request) (effective_security env operation) = None \<and>
    find_path env request = Inr (path, operation, path_result) \<longrightarrow>
      snd (validate env request) =
        (request, Inr \<lparr>res_errors = [InvalidSecurity], res_body = VNone,
                 res_parameters = RequestParameters, res_security = None\<rparr>))"
proof (intro conjI impI)
  assume ne: "effective_security env operation \<noteq> []"
  show "snd (get_security env request operation) =
     (case find (satisfied env request) (effective_security env operation) of
        Some a \<Rightarrow> Inr (map (\<lambda>n. (n, resolved_value env request n)) (map fst a))
      | None \<Rightarrow> Inl InvalidSecurity)"
    by (simp add: get_security_effective [OF ne] try_alternatives_snd)
  show "fst (get_security env request operation) =
     concat (map (attempt_events env request) (tried env request (effective_security env operation)))"
    by (simp add: get_security_effective [OF ne] try_alternatives_fst)
next
  assume ne: "effective_security env operation \<noteq> []"
  assume h: "find (satisfied env request) (effective_security env operation) = None \<and>
    find_path env request = Inr (path, operation, path_result)"
  have "snd (get_security env request operation) = Inl InvalidSecurity"
    using h by (simp add: get_security_effective [OF ne] try_alternatives_snd)
  then obtain ev where "get_security env request operation = (ev, Inl InvalidSecurity)"
    by (cases "get_security env request operation") auto
  with h show "snd (validate env request) =
        (request, Inr \<lparr>res_errors = [InvalidSecurity], res_body = VNone,
                 res_parameters = RequestParameters, res_security = None\<rparr>)"
    by (simp add: validate_def RequestValidationResult_def)
qed

theorem get_security_first_satisfied_witness:
  "effective_security example_env example_operation \<noteq> [] \<and>
   get_security example_env example_request example_operation =
     ([ProviderCalled ''api_key'', ProviderCalled ''petstore_auth''],
      Inr [(''petstore_auth'', VStr ''Basic abc'')]) \<and>
   get_security example_env keyed_request example_operation =
     ([ProviderCalled ''api_key''], Inr [(''api_key'', VStr ''k1'')]) \<and>
   find (satisfied example_env anonymous_request)
     (effective_security example_env example_operation) = None \<and>
   find_path example_env anonymous_request =
     Inr (\<lparr>pi_parameters = None\<rparr>, example_operation, \<lparr>variables = []\<rparr>) \<and>
   snd (validate example_env anonymous_request) =
     (anonymous_request,
      Inr \<lparr>res_errors = [InvalidSecurity], res_body = VNone,
           res_parameters = RequestParameters, res_security = None\<rparr>)"
proof -
  have ne: "effective_security example_env example_operation \<noteq> []"
    by (simp add: effective_security_def example_env_def example_operation_def)
  have fp: "find_path example_env anonymous_request =
     Inr (\<lparr>pi_parameters = None\<rparr>, example_operation, \<lparr>variables = []\<rparr>)"
    by (simp add: find_path_def example_env_def anonymous_request_def example_request_def)
  have none: "find (satisfied example_env anonymous_request)
     (effective_security example_env example_operation) = None"
    by (simp add: effective_security_def satisfied_def raises_security_error_def
        get_security_value_def example_env_def example_operation_def anonymous_request_def
        example_request_def)
  have a: "get_security example_env example_request example_operation =
     ([ProviderCalled ''api_key'', ProviderCalled ''petstore_auth''],
      Inr [(''petstore_auth'', VStr ''Basic abc'')])"
    using get_security_first_satisfied [OF ne, of example_request]
    by (simp add: prod_eq_iff effective_security_def satisfied_def raises_security_error_def
        resolved_value_def tried_def attempt_events_def
        get_security_value_def example_env_def example_operation_def example_request_def)
  have b: "get_security example_env keyed_request example_operation =
     ([ProviderCalled ''api_key''], Inr [(''api_key'', VStr ''k1'')])"
    using get_security_first_satisfied [OF ne, of keyed_request]
    by (simp add: prod_eq_iff effective_security_def satisfied_def raises_security_error_def
        resolved_value_def tried_def attempt_events_def
        get_security_value_def example_env_def example_operation_def example_request_def
        keyed_request_def)
  have c: "snd (validate example_env anonymous_request) =
     (anonymous_request,
      Inr \<lparr>res_errors = [InvalidSecurity], res_body = VNone,
           res_parameters = RequestParameters, res_security = None\<rparr>)"
    using get_security_first_satisfied [OF ne, of anonymous_request] none fp by simp
  from ne fp none a b c show ?thesis by simp
qed

subsection \<open>The effective list\<close>

text \<open>
  The resolver does not read the specification-wide list once it has its alternatives.
\<close>

lemma get_security_value_spec_security [simp]:
  "get_security_value (env\<lparr>spec_security := wide\<rparr>) n request = get_security_value env n request"
  by (simp add: get_security_value_def split: option.splits)

lemma resolve_schemes_spec_security [simp]:
  "resolve_schemes (env\<lparr>spec_security := wide\<rparr>) request names = resolve_schemes env request names"
  by (induction names) simp_all

lemma try_alternatives_spec_security [simp]:
  "try_alternatives (env\<lparr>spec_security := wide\<rparr>) request alternatives =
   try_alternatives env request alternatives"
  by (induction alternatives) simp_all

text \<open>
  C3. When the operation declares a \<open>security\<close> key, its list fully replaces the
  specification-wide list, whatever that one is and even when the operation's list is
  empty: resolution is what it would be with the operation's list as the
  specification-wide one and no key on the operation. Whenever the effective list is
  empty, resolution returns the empty mapping and invokes no provider.
\<close>

theorem get_security_override:
  "get_security (env\<lparr>spec_security := wide\<rparr>) request (operation\<lparr>op_security := Some alternatives\<rparr>) =
     get_security (env\<lparr>spec_security := Some alternatives\<rparr>) request (operation\<lparr>op_security := None\<rparr>) \<and>
   get_security (env\<lparr>spec_security := wide\<rparr>) request (operation\<lparr>op_security := Some alternatives\<rparr>) =
     (if alternatives = [] then ([], Inr []) else try_alternatives env request alternatives) \<and>
   (effective_security env operation = [] \<longrightarrow> get_security env request operation = ([], Inr []))"
  by (auto simp: get_security_def effective_security_def split: option.splits)

theorem get_security_override_witness:
  "effective_security example_env (example_operation\<lparr>op_security := Some []\<rparr>) = [] \<and>
   spec_security example_env = Some [[(''api_key'', [])], [(''petstore_auth'', [''read''])]] \<and>
   get_security example_env anonymous_request (example_operation\<lparr>op_security := Some []\<rparr>) =
     ([], Inr []) \<and>
   get_security example_env keyed_request
       (example_operation\<lparr>op_security := Some [[(''petstore_auth'', [])], [(''api_key'', [])]]\<rparr>) =
     ([ProviderCalled ''petstore_auth'', ProviderCalled ''api_key''], Inr [(''api_key'', VStr ''k1'')])"
proof -
  have e: "effective_security example_env (example_operation\<lparr>op_security := Some []\<rparr>) = []"
    by (simp add: effective_security_def)
  have s: "spec_security example_env = Some [[(''api_key'', [])], [(''petstore_auth'', [''read''])]]"
    by (simp add: example_env_def)
  have x: "example_env\<lparr>spec_security := spec_security example_env\<rparr> = example_env" by simp
  have a: "get_security example_env anonymous_request (example_operation\<lparr>op_security := Some []\<rparr>) =
     ([], Inr [])"
    using get_security_override [where env = example_env and request = anonymous_request
        and operation = "example_operation\<lparr>op_security := Some []\<rparr>"] e
    by simp
  have b0: "get_security example_env keyed_request
       (example_operation\<lparr>op_security := Some [[(''petstore_auth'', [])], [(''api_key'', [])]]\<rparr>) =
     try_alternatives example_env keyed_request [[(''petstore_auth'', [])], [(''api_key'', [])]]"
    using get_security_override [where env = example_env and wide = "spec_security example_env"
        and request = keyed_request and operation = example_operation
        and alternatives = "[[(''petstore_auth'', [])], [(''api_key'', [])]]",
        THEN conjunct2, THEN conjunct1]
    unfolding x by (simp del: try_alternatives.simps)
  have b1: "try_alternatives example_env keyed_request [[(''petstore_auth'', [])], [(''api_key'', [])]] =
     ([ProviderCalled ''petstore_auth'', ProviderCalled ''api_key''], Inr [(''api_key'', VStr ''k1'')])"
    by (simp add: get_security_value_def example_env_def keyed_request_def example_request_def)
  have b: "get_security example_env keyed_request
       (example_operation\<lparr>op_security := Some [[(''petstore_auth'', [])], [(''api_key'', [])]]\<rparr>) =
     ([ProviderCalled ''petstore_auth'', ProviderCalled ''api_key''], Inr [(''api_key'', VStr ''k1'')])"
    using b0 b1 by simp
  from e s a b show ?thesis by simp
qed

subsection \<open>Schemes the registry does not hold\<close>

text \<open>
  An alternative whose only scheme is not in the registry resolves to a mapping with one
  entry, the scheme name with the value \<^verbatim>\<open>None\<close>, not to the empty mapping.
\<close>

theorem unregistered_scheme_in_mapping:
  "map_of (security_schemes example_env) ''ghost'' = None \<and>
   get_security example_env anonymous_request ghost_operation = ([], Inr [(''ghost'', VNone)]) \<and>
   snd (get_security example_env anonymous_request ghost_operation) \<noteq> Inr []"
  by (simp add: get_security_def get_security_value_def ghost_operation_def example_env_def)

text \<open>
  C7, amended. Resolving a scheme name that the security-schemes registry does not hold
  succeeds as a no-op: no provider is invoked and the value is \<^verbatim>\<open>None\<close>. The alternative
  fails exactly when it fails without that scheme, with the same error; when it succeeds,
  the returned mapping is the one without that scheme plus, at the scheme's position, the
  scheme name with the value \<^verbatim>\<open>None\<close>.
\<close>

theorem unregistered_scheme:
  assumes "map_of (security_schemes env) scheme_name = None"
  shows "get_security_value env scheme_name request = ([], Inr VNone) \<and>
     fst (resolve_schemes env request (before @ scheme_name # after)) =
       fst (resolve_schemes env request (before @ after)) \<and>
     (case snd (resolve_schemes env request (before @ after)) of
        Inl e \<Rightarrow> snd (resolve_schemes env request (before @ scheme_name # after)) = Inl e
      | Inr m \<Rightarrow> snd (resolve_schemes env request (before @ scheme_name # after)) =
          Inr (take (length before) m @ (scheme_name, VNone) # drop (length before) m))"
proof -
  have v: "get_security_value env scheme_name request = ([], Inr VNone)"
    using assms by (simp add: get_security_value_def)
  have "fst (resolve_schemes env request (before @ scheme_name # after)) =
       fst (resolve_schemes env request (before @ after)) \<and>
     (case snd (resolve_schemes env request (before @ after)) of
        Inl e \<Rightarrow> snd (resolve_schemes env request (before @ scheme_name # after)) = Inl e
      | Inr m \<Rightarrow> snd (resolve_schemes env request (before @ scheme_name # after)) =
          Inr (take (length before) m @ (scheme_name, VNone) # drop (length before) m))"
  proof (induction before)
    case Nil
    show ?case by (simp add: v split: prod.splits sum.splits)
  next
    case (Cons n before)
    obtain ev r where g: "get_security_value env n request = (ev, r)"
      by (cases "get_security_value env n request")
    obtain ev1 r1 where r1: "resolve_schemes env request (before @ after) = (ev1, r1)"
      by (cases "resolve_schemes env request (before @ after)")
    obtain ev2 r2 where r2: "resolve_schemes env request (before @ scheme_name # after) = (ev2, r2)"
      by (cases "resolve_schemes env request (before @ scheme_name # after)")
    from Cons r1 r2 show ?case
      by (cases r; cases r1) (auto simp: g)
  qed
  with v show ?thesis by simp
qed

theorem unregistered_scheme_witness:
  "map_of (security_schemes example_env) ''ghost'' = None \<and>
   get_security_value example_env ''ghost'' keyed_request = ([], Inr VNone) \<and>
   resolve_schemes example_env keyed_request [''api_key''] =
     ([ProviderCalled ''api_key''], Inr [(''api_key'', VStr ''k1'')]) \<and>
   resolve_schemes example_env keyed_request [''api_key'', ''ghost''] =
     ([ProviderCalled ''api_key''], Inr [(''api_key'', VStr ''k1''), (''ghost'', VNone)])"
proof -
  have h: "map_of (security_schemes example_env) ''ghost'' = None"
    by (simp add: example_env_def)
  have r: "resolve_schemes example_env keyed_request [''api_key''] =
     ([ProviderCalled ''api_key''], Inr [(''api_key'', VStr ''k1'')])"
    by (simp add: get_security_value_def example_env_def keyed_request_def example_request_def)
  from unregistered_scheme [OF h, of keyed_request "[''api_key'']" "[]"] r
  have "get_security_value example_env ''ghost'' keyed_request = ([], Inr VNone)"
    and "resolve_schemes example_env keyed_request [''api_key'', ''ghost''] =
     ([ProviderCalled ''api_key''], Inr [(''api_key'', VStr ''k1''), (''ghost'', VNone)])"
    by (simp_all add: prod_eq_iff del: resolve_schemes.simps)
  with h r show ?thesis by simp
qed

section \<open>The parameter pipeline\<close>

subsection \<open>Raw values\<close>

text \<open>
  On a store with \<^verbatim>\<open>getall\<close> or \<^verbatim>\<open>getlist\<close>, the raw value of a present parameter is the
  sequence of all occurrences of its name, in order, when both \<open>aslist\<close> and \<open>explode\<close> are
  set; whatever the store, it is the single stored value otherwise.
\<close>

lemma get_parameter_value_present:
  assumes "map_of (getitem_location (req_parameters request) (param_in param)) (param_name param) =
           Some single"
    and "param_aslist param \<and> param_explode param \<longrightarrow>
         class_of (req_store_classes request) (param_in param) \<noteq> PlainDict"
  shows "get_parameter_value param request =
     Inr (if param_aslist param \<and> param_explode param
          then VList (map snd (filter (\<lambda>kv. fst kv = param_name param)
                 (getitem_location (req_parameters request) (param_in param))))
          else single)"
  using assms
  by (auto simp: get_parameter_value_def Let_def getall_def getlist_def split: store_class.splits)

lemma get_parameter_value_examples:
  "get_parameter_value example_tags example_request = Inr (VList [VStr ''a'', VStr ''b''])"
  "get_parameter_value (example_tags\<lparr>param_explode := False\<rparr>) example_request = Inr (VStr ''a'')"
  "get_parameter_value (flags_param\<lparr>param_explode := False\<rparr>) flags_request = Inr (VStr ''a'')"
  by (simp_all add: get_parameter_value_def getlist_def example_tags_def flags_param_def
      flags_request_def example_request_def)

text \<open>
  C9. For a parameter present in its location's value store with both \<open>aslist\<close> and
  \<open>explode\<close> set, the raw value is to be the ordered sequence of all occurrences of its name.
  On a plain dictionary the code does not deliver it. \<open>validate\<close> itself installs the path
  variables, a plain dictionary, as the path store; for the exploded list \<^verbatim>\<open>ids\<close> in the
  path, \<^verbatim>\<open>_get_parameter_value\<close> then calls \<^verbatim>\<open>getlist\<close> on it, and the \<^verbatim>\<open>AttributeError\<close>
  escapes \<^verbatim>\<open>_get_parameters\<close> and \<open>validate\<close>. The same happens for the exploded list
  \<^verbatim>\<open>flags\<close> in a plain cookie store.
\<close>

theorem get_parameter_value_plain_dict:
  "validate ids_env example_request =
     ([],
      example_request\<lparr>req_parameters :=
        (req_parameters example_request)\<lparr>rp_path := [(''ids'', VStr ''1,2'')]\<rparr>\<rparr>,
      Inl AttributeError) \<and>
   map_of (getitem_location (req_parameters flags_request) (param_in flags_param))
     (param_name flags_param) = Some (VStr ''a'') \<and>
   get_parameter_value flags_param flags_request = Inl AttributeError \<and>
   get_parameters example_env flags_request [flags_param] = ([], Inl AttributeError)"
proof -
  have s: "get_security ids_env example_request ids_operation = ([], Inr [])"
    by (simp add: get_security_def ids_operation_def)
  have v: "get_parameter_value ids_param
      (example_request\<lparr>req_parameters :=
        (req_parameters example_request)\<lparr>rp_path := [(''ids'', VStr ''1,2'')]\<rparr>\<rparr>) =
      Inl AttributeError"
    by (simp add: get_parameter_value_def ids_param_def example_request_def)
  have c: "example_request\<lparr>req_parameters :=
        (req_parameters example_request)\<lparr>rp_path := [(''ids'', VStr ''1,2'')]\<rparr>,
        req_store_classes := (req_store_classes example_request)\<lparr>class_path := PlainDict\<rparr>\<rparr> =
      example_request\<lparr>req_parameters :=
        (req_parameters example_request)\<lparr>rp_path := [(''ids'', VStr ''1,2'')]\<rparr>\<rparr>"
    by (simp add: example_request_def)
  have e: "rp_path (req_parameters example_request) = []"
    by (simp add: example_request_def)
  have g: "get_parameters ids_env
      (example_request\<lparr>req_parameters :=
        (req_parameters example_request)\<lparr>rp_path := [(''ids'', VStr ''1,2'')]\<rparr>\<rparr>) [ids_param] =
      ([], Inl AttributeError)"
    by (simp add: get_parameters_def get_parameter_def v) (simp add: ids_param_def getkey_def)
  have o: "op_parameters ids_operation = Some [ids_param]"
    by (simp add: ids_operation_def)
  have a: "validate ids_env example_request =
     ([],
      example_request\<lparr>req_parameters :=
        (req_parameters example_request)\<lparr>rp_path := [(''ids'', VStr ''1,2'')]\<rparr>\<rparr>,
      Inl AttributeError)"
    by (simp add: validate_def find_path_def ids_env_def getkey_def e c o
        s [unfolded ids_env_def] g [unfolded ids_env_def])
  have f: "get_parameter_value flags_param flags_request = Inl AttributeError"
    by (simp add: get_parameter_value_def flags_param_def flags_request_def example_request_def)
  have m: "map_of (getitem_location (req_parameters flags_request) (param_in flags_param))
     (param_name flags_param) = Some (VStr ''a'')"
    by (simp add: flags_param_def flags_request_def)
  have h: "get_parameters example_env flags_request [flags_param] = ([], Inl AttributeError)"
    by (simp add: get_parameters_def get_parameter_def f) (simp add: flags_param_def getkey_def)
  from a m f h show ?thesis by simp
qed

subsection \<open>What one declaration can raise\<close>










subsection \<open>One step of the loop\<close>

lemma with_events_Nil [simp]: "with_events [] r = r"
  by (simp add: with_events_def)

lemma loop_seen:
  "(param_name p, param_in p) \<in> seen \<Longrightarrow>
   get_parameters_loop env request (p # ps) errors seen locations =
   get_parameters_loop env request ps errors seen locations"
  by simp

lemma loop_step:
  assumes "(param_name p, param_in p) \<notin> seen"
  shows "get_parameters_loop env request (p # ps) errors seen locations =
     (case snd (get_parameter env p request) of
        Inr v \<Rightarrow> with_events (fst (get_parameter env p request))
          (get_parameters_loop env request ps errors (insert (param_name p, param_in p) seen)
             (set_location locations (param_in p) (param_name p) v))
      | Inl e \<Rightarrow>
          if (\<exists>n. e = MissingParameter n) then
            with_events (fst (get_parameter env p request))
              (get_parameters_loop env request ps errors (insert (param_name p, param_in p) seen) locations)
          else if collected e then
            with_events (fst (get_parameter env p request))
              (get_parameters_loop env request ps (errors @ [e]) (insert (param_name p, param_in p) seen) locations)
          else (fst (get_parameter env p request), Inl e))"
proof -
  obtain ev r where g: "get_parameter env p request = (ev, r)"
    by (cases "get_parameter env p request")
  show ?thesis
  proof (cases r)
    case (Inl e)
    with g assms show ?thesis
      by (cases e) (simp_all add: with_events_def split: prod.splits)
  next
    case (Inr v)
    with g assms show ?thesis by (simp add: with_events_def split: prod.splits)
  qed
qed

subsection \<open>Absent parameters\<close>

text \<open>
  With a caster that turns \<^verbatim>\<open>20\<close> into a number, the absent \<^verbatim>\<open>limit\<close> resolves to its
  default as the string \<^verbatim>\<open>20\<close>: the default is unmarshalled only. Deserialized, cast and
  unmarshalled like a raw value it would be the number, as the fetched \<^verbatim>\<open>limit=20\<close> is.
\<close>

theorem default_skips_deserialize_and_cast:
  "map_of (getitem_location (req_parameters untagged_request) (param_in example_limit))
     (param_name example_limit) = None \<and>
   param_required example_limit = None \<and>
   declared_default example_limit = Some (VStr ''20'') \<and>
   snd (get_parameter casting_env example_limit untagged_request) = Inr (VStr ''20'') \<and>
   and_then (deserialise_parameter casting_env example_limit (VStr ''20'')) (\<lambda>deserialised.
     and_then (cast casting_env (SchemaPath (param_schema example_limit)) deserialised) (\<lambda>casted.
       unmarshal casting_env (param_schema example_limit) casted)) = Inr (VInt 20) \<and>
   snd (get_parameter casting_env example_limit limited_request) = Inr (VInt 20)"
  by (simp add: get_parameter_def get_parameter_value_def getkey_def declared_default_def
      and_then_def deserialise_parameter_def cast_def unmarshal_def
      casting_env_def example_env_def example_limit_def example_schema_def
      untagged_request_def limited_request_def example_request_def)

text \<open>
  C6, amended. For a declaration whose name is absent from its location's value store:
  if it is required, the parameter fails with the missing-required-parameter error, which
  the loop records as exactly one error before it goes on with the remaining declarations;
  if it is not required and declares a schema with a default, the default takes the place
  of the cast value: it is not deserialized and not cast, only unmarshalled against the
  schema; otherwise the parameter is skipped, with no value and no error, and the loop
  goes on.
\<close>

theorem absent_parameter:
  assumes "map_of (getitem_location (req_parameters request) (param_in param)) (param_name param) = None"
  shows
    "(getkey (param_required param) False \<longrightarrow>
        snd (get_parameter env param request) = Inl (MissingRequiredParameter (param_name param)) \<and>
        ((param_name param, param_in param) \<notin> seen \<longrightarrow>
           get_parameters_loop env request (param # params) errors seen locations =
             with_events (fst (get_parameter env param request))
               (get_parameters_loop env request params
                  (errors @ [MissingRequiredParameter (param_name param)])
                  (insert (param_name param, param_in param) seen) locations))) \<and>
     (\<not> getkey (param_required param) False \<longrightarrow>
        (\<forall>d. declared_default param = Some d \<longrightarrow>
           snd (get_parameter env param request) = unmarshal env (param_schema param) d) \<and>
        (declared_default param = None \<longrightarrow>
           snd (get_parameter env param request) = Inl (MissingParameter (param_name param)) \<and>
           ((param_name param, param_in param) \<notin> seen \<longrightarrow>
              get_parameters_loop env request (param # params) errors seen locations =
                with_events (fst (get_parameter env param request))
                  (get_parameters_loop env request params errors
                     (insert (param_name param, param_in param) seen) locations))))"
proof (intro conjI impI allI)
  assume r: "getkey (param_required param) False"
  with assms show g: "snd (get_parameter env param request) = Inl (MissingRequiredParameter (param_name param))"
    by (simp add: get_parameter_def get_parameter_value_def)
  assume "(param_name param, param_in param) \<notin> seen"
  from loop_step [OF this] g
  show "get_parameters_loop env request (param # params) errors seen locations =
             with_events (fst (get_parameter env param request))
               (get_parameters_loop env request params
                  (errors @ [MissingRequiredParameter (param_name param)])
                  (insert (param_name param, param_in param) seen) locations)"
    by simp
next
  fix d
  assume "\<not> getkey (param_required param) False" "declared_default param = Some d"
  with assms show "snd (get_parameter env param request) = unmarshal env (param_schema param) d"
    by (auto simp: get_parameter_def get_parameter_value_def declared_default_def
        split: option.splits)
next
  assume r: "\<not> getkey (param_required param) False" and d: "declared_default param = None"
  with assms show g: "snd (get_parameter env param request) = Inl (MissingParameter (param_name param))"
    by (auto simp: get_parameter_def get_parameter_value_def declared_default_def
        split: option.splits)
  assume "(param_name param, param_in param) \<notin> seen"
  from loop_step [OF this] g
  show "get_parameters_loop env request (param # params) errors seen locations =
                with_events (fst (get_parameter env param request))
                  (get_parameters_loop env request params errors
                     (insert (param_name param, param_in param) seen) locations)"
    by simp
qed

theorem absent_parameter_witness:
  "map_of (getitem_location (req_parameters untagged_request) LQuery) ''tags'' = None \<and>
   getkey (param_required example_tags) False \<and>
   snd (get_parameter example_env example_tags untagged_request) =
     Inl (MissingRequiredParameter ''tags'') \<and>
   \<not> getkey (param_required example_limit) False \<and>
   declared_default example_limit = Some (VStr ''20'') \<and>
   snd (get_parameter example_env example_limit untagged_request) = Inr (VStr ''20'') \<and>
   \<not> getkey (param_required sort_param) False \<and>
   declared_default sort_param = None \<and>
   get_parameters_loop example_env untagged_request [sort_param] [] {} RequestParameters =
     ([], Inr (RequestParameters, []))"
proof -
  have n: "param_name example_tags = ''tags''" "param_in example_tags = LQuery"
    "param_name example_limit = ''limit''" "param_in example_limit = LQuery"
    "param_name sort_param = ''sort''" "param_in sort_param = LQuery"
    by (simp_all add: example_tags_def example_limit_def sort_param_def)
  have q: "rp_query (req_parameters untagged_request) = []"
    by (simp add: untagged_request_def)
  have m: "map_of (getitem_location (req_parameters untagged_request) (param_in example_tags))
        (param_name example_tags) = None"
      "map_of (getitem_location (req_parameters untagged_request) (param_in example_limit))
        (param_name example_limit) = None"
      "map_of (getitem_location (req_parameters untagged_request) (param_in sort_param))
        (param_name sort_param) = None"
    by (simp_all add: n q)
  have r: "getkey (param_required example_tags) False" "\<not> getkey (param_required example_limit) False"
    "\<not> getkey (param_required sort_param) False"
    by (simp_all add: getkey_def example_tags_def example_limit_def sort_param_def)
  have d: "declared_default example_limit = Some (VStr ''20'')" "declared_default sort_param = None"
    by (simp_all add: declared_default_def example_limit_def example_schema_def sort_param_def)
  have a: "snd (get_parameter example_env example_tags untagged_request) =
     Inl (MissingRequiredParameter ''tags'')"
    using absent_parameter [OF m(1), of example_env] r(1) by (simp add: n)
  have u: "unmarshal example_env (param_schema example_limit) (VStr ''20'') = Inr (VStr ''20'')"
    by (simp add: unmarshal_def example_env_def)
  have b: "snd (get_parameter example_env example_limit untagged_request) = Inr (VStr ''20'')"
    using absent_parameter [OF m(2), of example_env] r(2) d(1) u by simp
  have w: "fst (get_parameter example_env sort_param untagged_request) = []"
    by (simp add: get_parameter_def getkey_def sort_param_def)
  have c: "get_parameters_loop example_env untagged_request [sort_param] [] {} RequestParameters =
     ([], Inr (RequestParameters, []))"
    using absent_parameter [OF m(3), of example_env "{}" "[]" "[]" RequestParameters] r(3) d(2) w
    by (simp del: get_parameters_loop.simps add: get_parameters_loop.simps(1))
  from m(1) r d a b c show ?thesis by (simp add: n)
qed

subsection \<open>Content parameters\<close>

text \<open>
  C10. For a content parameter only the first entry of the content mapping is used: the
  outcome is the same as with that entry alone, whatever the further entries are, and for a
  raw value it is the deserializer of the first media type, then the cast and the
  unmarshalling against that media type's schema, also when one of these fails.
\<close>

theorem content_parameter_first_entry:
  assumes "param_content param = Some ((mimetype, media_type) # further)"
  shows "get_parameter env param request =
           get_parameter env (param\<lparr>param_content := Some [(mimetype, media_type)]\<rparr>) request \<and>
         (\<forall>raw_value. get_parameter_value param request = Inr raw_value \<longrightarrow>
            snd (get_parameter env param request) =
              and_then (deserialise_data env mimetype raw_value) (\<lambda>deserialised.
                and_then (cast env (SchemaPath (mt_schema media_type)) deserialised) (\<lambda>casted.
                  unmarshal env (mt_schema media_type) casted)))"
proof -
  have v: "get_parameter_value (param\<lparr>param_content := Some [(mimetype, media_type)]\<rparr>) request =
        get_parameter_value param request"
    by (simp add: get_parameter_value_def Let_def
        cong: option.case_cong if_cong store_class.case_cong)
  show ?thesis using assms
    by (simp add: get_parameter_def v split: sum.splits exn.splits)
qed

theorem content_parameter_first_entry_witness:
  "param_content filter_param =
     Some ((''text/plain'', \<lparr>mt_schema = None, mt_spec = VNone\<rparr>) #
           [(''application/json'', \<lparr>mt_schema = None, mt_spec = VNone\<rparr>)]) \<and>
   get_parameter_value filter_param filter_request = Inr (VStr ''{}'') \<and>
   snd (get_parameter example_env filter_param filter_request) =
     Inl (DeserializeError ''unsupported'')"
proof -
  have c: "param_content filter_param =
     Some ((''text/plain'', \<lparr>mt_schema = None, mt_spec = VNone\<rparr>) #
           [(''application/json'', \<lparr>mt_schema = None, mt_spec = VNone\<rparr>)])"
    by (simp add: filter_param_def)
  have v: "get_parameter_value filter_param filter_request = Inr (VStr ''{}'')"
    by (simp add: get_parameter_value_def filter_param_def filter_request_def example_request_def)
  have d: "deserialise_data example_env ''text/plain'' (VStr ''{}'') = Inl (DeserializeError ''unsupported'')"
    by (simp add: deserialise_data_def example_env_def)
  from content_parameter_first_entry [OF c, of example_env filter_request, THEN conjunct2] v d
  have "snd (get_parameter example_env filter_param filter_request) =
     Inl (DeserializeError ''unsupported'')"
    by (simp add: and_then_def)
  with c v show ?thesis by simp
qed

subsection \<open>The loop collects every failure\<close>









subsection \<open>Shadowed declarations\<close>

lemma loop_shadowed:
  "(param_name q, param_in q) \<in> seen \<union> (\<lambda>p. (param_name p, param_in p)) ` set before \<Longrightarrow>
   get_parameters_loop env request (before @ q # after) errors seen locations =
   get_parameters_loop env request (before @ after) errors seen locations"
proof (induction before arbitrary: errors seen locations)
  case Nil
  then show ?case by simp
next
  case (Cons p before)
  show ?case
  proof (cases "(param_name p, param_in p) \<in> seen")
    case True
    with Cons.prems have "(param_name q, param_in q) \<in> seen \<union> (\<lambda>p. (param_name p, param_in p)) ` set before"
      by auto
    from Cons.IH [OF this] True show ?thesis by simp
  next
    case False
    from Cons.prems have
      "(param_name q, param_in q) \<in> insert (param_name p, param_in p) seen \<union>
         (\<lambda>p. (param_name p, param_in p)) ` set before"
      by auto
    note ih = Cons.IH [OF this]
    have "get_parameters_loop env request (p # (before @ q # after)) errors seen locations =
          get_parameters_loop env request (p # (before @ after)) errors seen locations"
      unfolding loop_step [OF False] by (simp add: ih split: sum.splits)
    then show ?thesis by simp
  qed
qed

lemma get_parameters_shadowed:
  assumes "p \<in> set operation_params" "param_name q = param_name p" "param_in q = param_in p"
  shows "get_parameters env request (operation_params @ before @ q # after) =
         get_parameters env request (operation_params @ before @ after)"
proof -
  have "(param_name q, param_in q) \<in> {} \<union> (\<lambda>p. (param_name p, param_in p)) ` set (operation_params @ before)"
    using assms by force
  from loop_shadowed [OF this, of env request after "[]" RequestParameters]
  show ?thesis by (simp add: get_parameters_def)
qed

text \<open>
  Nothing after path resolution reads the path finder.
\<close>

lemma get_security_path_finder [simp]:
  "get_security (env\<lparr>path_finder := f\<rparr>) request operation = get_security env request operation"
proof -
  have v: "get_security_value (env\<lparr>path_finder := f\<rparr>) n request = get_security_value env n request" for n
    by (simp add: get_security_value_def split: option.splits)
  have r: "resolve_schemes (env\<lparr>path_finder := f\<rparr>) request names = resolve_schemes env request names" for names
    by (induction names) (simp_all add: v)
  have t: "try_alternatives (env\<lparr>path_finder := f\<rparr>) request alts = try_alternatives env request alts" for alts
    by (induction alts) (simp_all add: r)
  show ?thesis by (auto simp: get_security_def t split: option.splits)
qed

lemma stages_path_finder [simp]:
  "unmarshal (env\<lparr>path_finder := f\<rparr>) = unmarshal env"
  "cast (env\<lparr>path_finder := f\<rparr>) = cast env"
  "deserialise_data (env\<lparr>path_finder := f\<rparr>) = deserialise_data env"
  "deserialise_parameter (env\<lparr>path_finder := f\<rparr>) = deserialise_parameter env"
  "get_media_type (env\<lparr>path_finder := f\<rparr>) = get_media_type env"
  by (simp_all add: fun_eq_iff unmarshal_def cast_def deserialise_data_def
      deserialise_parameter_def get_media_type_def)

lemma get_parameter_path_finder [simp]:
  "get_parameter (env\<lparr>path_finder := f\<rparr>) = get_parameter env"
  by (simp add: fun_eq_iff get_parameter_def
      cong: option.case_cong sum.case_cong exn.case_cong list.case_cong prod.case_cong)

lemma get_parameters_path_finder [simp]:
  "get_parameters (env\<lparr>path_finder := f\<rparr>) request params = get_parameters env request params"
proof -
  have "get_parameters_loop (env\<lparr>path_finder := f\<rparr>) request params errors seen locations =
        get_parameters_loop env request params errors seen locations" for errors seen locations
    by (induction params arbitrary: errors seen locations) simp_all
  moreover have "RequestParameters_from (env\<lparr>path_finder := f\<rparr>) = RequestParameters_from env"
    by (simp add: fun_eq_iff RequestParameters_from_def)
  ultimately show ?thesis by (simp add: get_parameters_def split: prod.splits sum.splits)
qed

lemma get_body_path_finder [simp]:
  "get_body (env\<lparr>path_finder := f\<rparr>) = get_body env"
  by (simp add: fun_eq_iff get_body_def
      cong: option.case_cong sum.case_cong exn.case_cong list.case_cong prod.case_cong)

text \<open>
  C4. When the operation declares a parameter and the path item declares one with the
  same (name, location), only the operation's declaration is processed: \<open>validate\<close> returns
  the same events, request and result (values, errors, or exception) as with the path
  item's declaration removed, whatever the outcome of the operation's declaration; so does
  \<open>get_parameters\<close> on the chained declarations, for any request.
\<close>

theorem path_item_parameter_shadowed:
  assumes "path_finder env request = Inr (path, operation, path_result)"
    and "pi_parameters path = Some (before @ q # after)"
    and "op_parameters operation = Some operation_params"
    and "p \<in> set operation_params"
    and "param_name q = param_name p" and "param_in q = param_in p"
  shows "validate env request =
         validate (env\<lparr>path_finder := (path_finder env)
            (request := Inr (path\<lparr>pi_parameters := Some (before @ after)\<rparr>, operation, path_result))\<rparr>)
           request \<and>
         get_parameters env r (operation_params @ before @ q # after) =
         get_parameters env r (operation_params @ before @ after)"
proof
  show "get_parameters env r (operation_params @ before @ q # after) =
        get_parameters env r (operation_params @ before @ after)"
    by (rule get_parameters_shadowed [OF assms(4-6)])
  have ne: "operation_params \<noteq> []" using assms(4) by auto
  show "validate env request =
         validate (env\<lparr>path_finder := (path_finder env)
            (request := Inr (path\<lparr>pi_parameters := Some (before @ after)\<rparr>, operation, path_result))\<rparr>)
           request"
    using assms(1-3) ne
    by (simp add: validate_def find_path_def getkey_def Let_def
        get_parameters_shadowed [OF assms(4-6)])
qed

theorem path_item_parameter_shadowed_witness:
  "path_finder shadow_env untagged_request =
     Inr (\<lparr>pi_parameters = Some [path_level_tags]\<rparr>, example_operation, \<lparr>variables = []\<rparr>) \<and>
   example_tags \<in> set [example_limit, example_tags] \<and>
   param_name path_level_tags = param_name example_tags \<and>
   param_in path_level_tags = param_in example_tags \<and>
   validate shadow_env untagged_request =
     ([ProviderCalled ''api_key'', ProviderCalled ''petstore_auth'', DeprecationWarning ''limit''],
      untagged_request,
      Inr \<lparr>res_errors = [MissingRequiredParameter ''tags''], res_body = VNone,
           res_parameters = \<lparr>rp_path = [], rp_query = [(''limit'', VStr ''20'')],
                               rp_header = [], rp_cookie = []\<rparr>,
           res_security = Some [(''petstore_auth'', VStr ''Basic abc'')]\<rparr>)"
proof -
  have f: "path_finder shadow_env untagged_request =
     Inr (\<lparr>pi_parameters = Some [path_level_tags]\<rparr>, example_operation, \<lparr>variables = []\<rparr>)"
    by (simp add: shadow_env_def)
  have p: "pi_parameters \<lparr>pi_parameters = Some [path_level_tags]\<rparr> = Some ([] @ path_level_tags # [])"
    by simp
  have o: "op_parameters example_operation = Some [example_limit, example_tags]"
    by (simp add: example_operation_def)
  have i: "example_tags \<in> set [example_limit, example_tags]" by simp
  have k: "param_name path_level_tags = param_name example_tags"
    "param_in path_level_tags = param_in example_tags"
    by (simp_all add: path_level_tags_def)
  have s: "get_security example_env untagged_request example_operation =
     ([ProviderCalled ''api_key'', ProviderCalled ''petstore_auth''],
      Inr [(''petstore_auth'', VStr ''Basic abc'')])"
    by (simp add: get_security_def get_security_value_def example_env_def example_operation_def
        untagged_request_def example_request_def)
  have e: "get_parameters example_env untagged_request [example_limit, example_tags] =
     ([DeprecationWarning ''limit''],
      Inr (\<lparr>rp_path = [], rp_query = [(''limit'', VStr ''20'')], rp_header = [], rp_cookie = []\<rparr>,
           [MissingRequiredParameter ''tags'']))"
    by (simp add: get_parameters_def get_parameter_def get_parameter_value_def getkey_def
        unmarshal_def RequestParameters_def RequestParameters_from_def
        example_limit_def example_tags_def example_schema_def untagged_request_def
        example_request_def example_env_def)
  have b: "get_body example_env untagged_request example_operation = Inr (VNone, [])"
    by (simp add: get_body_def example_operation_def)
  have u: "untagged_request\<lparr>req_parameters := (req_parameters untagged_request)\<lparr>rp_path := []\<rparr>,
        req_store_classes := (req_store_classes untagged_request)\<lparr>class_path := PlainDict\<rparr>\<rparr> =
      untagged_request"
    by (simp add: untagged_request_def example_request_def)
  have "validate (shadow_env\<lparr>path_finder := (path_finder shadow_env)
            (untagged_request := Inr (\<lparr>pi_parameters = Some [path_level_tags]\<rparr>
                \<lparr>pi_parameters := Some ([] @ [])\<rparr>, example_operation, \<lparr>variables = []\<rparr>))\<rparr>)
           untagged_request =
     ([ProviderCalled ''api_key'', ProviderCalled ''petstore_auth'', DeprecationWarning ''limit''],
      untagged_request,
      Inr \<lparr>res_errors = [MissingRequiredParameter ''tags''], res_body = VNone,
           res_parameters = \<lparr>rp_path = [], rp_query = [(''limit'', VStr ''20'')],
                               rp_header = [], rp_cookie = []\<rparr>,
           res_security = Some [(''petstore_auth'', VStr ''Basic abc'')]\<rparr>)"
    by (simp add: validate_def find_path_def getkey_def o shadow_env_def s e b u)
  with path_item_parameter_shadowed [OF f p o i k, THEN conjunct1]
  have "validate shadow_env untagged_request =
     ([ProviderCalled ''api_key'', ProviderCalled ''petstore_auth'', DeprecationWarning ''limit''],
      untagged_request,
      Inr \<lparr>res_errors = [MissingRequiredParameter ''tags''], res_body = VNone,
           res_parameters = \<lparr>rp_path = [], rp_query = [(''limit'', VStr ''20'')],
                               rp_header = [], rp_cookie = []\<rparr>,
           res_security = Some [(''petstore_auth'', VStr ''Basic abc'')]\<rparr>)"
    by simp
  with f i k show ?thesis by simp
qed

section \<open>The body pipeline\<close>

text \<open>
  A required body with a present but empty payload: media type selection would succeed,
  but the payload counts as missing.
\<close>

theorem empty_payload_is_missing:
  "req_body empty_body_request = VStr [] \<and>
   get_media_type example_env
     [(''application/json'', \<lparr>mt_schema = None, mt_spec = VNone\<rparr>)] empty_body_request =
     Inr (\<lparr>mt_schema = None, mt_spec = VNone\<rparr>, ''application/json'') \<and>
   get_body example_env empty_body_request body_operation =
     Inr (VNone, [MissingRequiredRequestBody empty_body_request])"
  by (simp add: get_body_def get_body_value_def get_media_type_def getkey_def
      body_operation_def empty_body_request_def example_request_def example_env_def)

text \<open>
  C8, amended. The body pipeline treats a payload that is absent or empty (falsy) as
  missing: with a required request body it yields the single missing-required-body error
  with the body absent, with a non-required one the body absent and no error. Only a
  non-empty payload proceeds to media type selection: a failure there is the single error,
  a selected media type leads to the deserialize, cast and unmarshal stages, each failure
  being the single error with the body absent.
\<close>

theorem get_body_payload:
  assumes "op_requestBody operation = Some request_body"
  shows
    "(\<not> truthy (req_body request) \<longrightarrow>
        get_body env request operation =
          Inr (VNone, if getkey (rb_required request_body) False
                      then [MissingRequiredRequestBody request] else [])) \<and>
     (truthy (req_body request) \<longrightarrow>
        (\<forall>m. media_type_finder env (rb_content request_body) request = Inl m \<longrightarrow>
           get_body env request operation = Inr (VNone, [MediaTypeFinderError m])) \<and>
        (\<forall>media_type mimetype.
           media_type_finder env (rb_content request_body) request = Inr (media_type, mimetype) \<longrightarrow>
           get_body env request operation =
             (case deserialise_data env mimetype (req_body request) of
                Inl e \<Rightarrow> Inr (VNone, [e])
              | Inr deserialised \<Rightarrow>
                  (case cast env (MediaType media_type) deserialised of
                     Inl e \<Rightarrow> Inr (VNone, [e])
                   | Inr casted \<Rightarrow>
                       (case mt_schema media_type of
                          None \<Rightarrow> Inr (casted, [])
                        | Some schema \<Rightarrow>
                            (case unmarshal env (Some schema) casted of
                               Inl e \<Rightarrow> Inr (VNone, [e])
                             | Inr body \<Rightarrow> Inr (body, [])))))))"
proof (intro conjI impI allI)
  assume "\<not> truthy (req_body request)"
  with assms show "get_body env request operation =
          Inr (VNone, if getkey (rb_required request_body) False
                      then [MissingRequiredRequestBody request] else [])"
    by (simp add: get_body_def get_body_value_def)
next
  fix m
  assume "truthy (req_body request)" "media_type_finder env (rb_content request_body) request = Inl m"
  with assms show "get_body env request operation = Inr (VNone, [MediaTypeFinderError m])"
    by (simp add: get_body_def get_body_value_def get_media_type_def)
next
  fix media_type mimetype
  assume "truthy (req_body request)"
    "media_type_finder env (rb_content request_body) request = Inr (media_type, mimetype)"
  with assms show "get_body env request operation =
             (case deserialise_data env mimetype (req_body request) of
                Inl e \<Rightarrow> Inr (VNone, [e])
              | Inr deserialised \<Rightarrow>
                  (case cast env (MediaType media_type) deserialised of
                     Inl e \<Rightarrow> Inr (VNone, [e])
                   | Inr casted \<Rightarrow>
                       (case mt_schema media_type of
                          None \<Rightarrow> Inr (casted, [])
                        | Some schema \<Rightarrow>
                            (case unmarshal env (Some schema) casted of
                               Inl e \<Rightarrow> Inr (VNone, [e])
                             | Inr body \<Rightarrow> Inr (body, [])))))"
    by (simp add: get_body_def get_body_value_def get_media_type_def
        deserialise_data_def cast_def unmarshal_def
        split: sum.splits option.splits unmarshal_failure.splits)
qed

theorem get_body_payload_witness:
  "op_requestBody body_operation = Some
     \<lparr>rb_required = Some True,
      rb_content = [(''application/json'', \<lparr>mt_schema = None, mt_spec = VNone\<rparr>)]\<rparr> \<and>
   \<not> truthy (req_body example_request) \<and>
   get_body example_env example_request body_operation =
     Inr (VNone, [MissingRequiredRequestBody example_request]) \<and>
   truthy (req_body xml_body_request) \<and>
   get_body example_env xml_body_request body_operation =
     Inr (VNone, [MediaTypeFinderError ''media type not found'']) \<and>
   truthy (req_body json_body_request) \<and>
   get_body example_env json_body_request body_operation = Inr (VStr ''{}'', [])"
proof -
  let ?rb = "\<lparr>rb_required = Some True,
      rb_content = [(''application/json'', \<lparr>mt_schema = None, mt_spec = VNone\<rparr>)]\<rparr>"
  have o: "op_requestBody body_operation = Some ?rb"
    by (simp add: body_operation_def)
  have t: "\<not> truthy (req_body example_request)" "truthy (req_body xml_body_request)"
    "truthy (req_body json_body_request)"
    by (simp_all add: example_request_def xml_body_request_def json_body_request_def)
  have f: "media_type_finder example_env (rb_content ?rb) xml_body_request = Inl ''media type not found''"
    "media_type_finder example_env (rb_content ?rb) json_body_request =
       Inr (\<lparr>mt_schema = None, mt_spec = VNone\<rparr>, ''application/json'')"
    by (simp_all add: example_env_def xml_body_request_def json_body_request_def example_request_def)
  have a: "get_body example_env example_request body_operation =
     Inr (VNone, [MissingRequiredRequestBody example_request])"
    using get_body_payload [OF o, of example_request example_env] t(1) by (simp add: getkey_def)
  have b: "get_body example_env xml_body_request body_operation =
     Inr (VNone, [MediaTypeFinderError ''media type not found''])"
    using get_body_payload [OF o, of xml_body_request example_env] t(2) f(1) by simp
  have d: "deserialise_data example_env ''application/json'' (req_body json_body_request) = Inr (VStr ''{}'')"
    "cast example_env (MediaType \<lparr>mt_schema = None, mt_spec = VNone\<rparr>) (VStr ''{}'') = Inr (VStr ''{}'')"
    by (simp_all add: deserialise_data_def cast_def example_env_def json_body_request_def)
  have c: "get_body example_env json_body_request body_operation = Inr (VStr ''{}'', [])"
    using get_body_payload [OF o, of json_body_request example_env] t(3) f(2) d by simp
  from o t a b c show ?thesis by simp
qed

end
